theory Spec2Isabelle
  imports Complex_Main
begin

section \<open>Module-level physical parameters\<close>

text \<open>
  The notebook \<^verbatim>\<open>Supplement.ipynb\<close> keeps its physical parameters in module-level
  variables that every function reads when it is called:
  \<^verbatim>\<open>c_l, c_r, Z_l, Z_r, x_0, x_r, s, sZ, t_r, oscillate\<close>.
  The record below is that environment. The closures built by \<^verbatim>\<open>make_trans_fcn\<close> and
  \<^verbatim>\<open>make_refl_fcn\<close> receive the same-named globals as arguments at every call site of
  the notebook, so a single record serves both the captured and the global names.

  Python floats are modelled as \<^typ>\<open>real\<close>: all statements are about exact real
  arithmetic. A Python comparison used as a number, \<^verbatim>\<open>(x<x_0)*c_l\<close>, is
  \<^term>\<open>of_bool (x < a) * (b::real)\<close>.

  The reals have no \<^verbatim>\<open>inf\<close> and no \<^verbatim>\<open>nan\<close>. In double precision
  \<^verbatim>\<open>np.exp\<close> returns \<^verbatim>\<open>inf\<close> once its argument passes about 709.78, and
  \<^verbatim>\<open>0*inf\<close> is \<^verbatim>\<open>nan\<close>; the real-valued definitions say nothing about the program
  at such arguments. Statements about \<open>X\<close> outside the crossing window therefore carry the
  bound \<open>s * t \<le> 709\<close>, under which \<^verbatim>\<open>np.exp(s*t)\<close> is finite.
\<close>

record env =
  c_l :: real
  c_r :: real
  Z_l :: real
  Z_r :: real
  x_0 :: real
  x_r :: real
  s :: real
  sZ :: real
  t_r :: real
  oscillate :: real

text \<open>
  The parameter cells of the notebook derive the slopes and the crossing time from the six
  primitive parameters:
  \<^verbatim>\<open>
  s = (c_r-c_l)/(x_r-x_0)  # slope c
  sZ = (Z_r-Z_l)/(x_r-x_0)
  t_r = 1./s*np.log(s*x_r/c_l+1)  # crossing time
  \<close>
\<close>

definition globals :: "real \<Rightarrow> real \<Rightarrow> real \<Rightarrow> real \<Rightarrow> real \<Rightarrow> real \<Rightarrow> real \<Rightarrow> env" where
  "globals cl cr zl zr x0 xr osc =
     (let sc = (cr - cl) / (xr - x0);
          sz = (zr - zl) / (xr - x0);
          tr = 1 / sc * ln (sc * xr / cl + 1)
      in \<lparr>c_l = cl, c_r = cr, Z_l = zl, Z_r = zr, x_0 = x0, x_r = xr,
          s = sc, sZ = sz, t_r = tr, oscillate = osc\<rparr>)"

text \<open>Figure 8(a): \<^verbatim>\<open>c_l = 2., c_r = 1., Z_l = 0.5, Z_r = 1., x_0 = 0., x_r = 1., oscillate = 0.\<close>\<close>

definition fig8 :: env where
  "fig8 = globals 2 1 (1/2) 1 0 1 0"

text \<open>
  Two further parameter sets, set up by the same assignments, in which the transition
  region does not start at the origin: one lies to the left of \<open>x = 0\<close>, the other
  straddles it. Both have \<open>x_0 < x_r\<close> and positive sound speeds.
\<close>

definition shifted :: env where
  "shifted = globals 1 (5/2) 1 2 (-2) (-1/2) 0"

definition centred :: env where
  "centred = globals 2 1 (1/2) 1 (-1) 1 0"

section \<open>Material profile\<close>

text \<open>
  \<^verbatim>\<open>
  def c_fun(x):
      return (x<x_0)*c_l + (x>x_r)*c_r + (x>=x_0)*(x<=x_r)*(c_l + s*(x-x_0))

  def Z_fun(x):
      return (x<x_0)*Z_l + (x>x_r)*Z_r + (x>=x_0)*(x<=x_r)*(Z_l + sZ*(x-x_0)) \
              + oscillate*(x>x_0)*(x<x_r)*np.sin(10*np.pi*x)

  def Z_prime(x):
      if oscillate==0:
          return sZ
      else:
          return sZ + oscillate*10*np.pi*np.cos(10*np.pi*x)
  \<close>
\<close>

definition c_fun :: "env \<Rightarrow> real \<Rightarrow> real" where
  "c_fun e x =
     of_bool (x < x_0 e) * c_l e + of_bool (x > x_r e) * c_r e
     + of_bool (x \<ge> x_0 e) * of_bool (x \<le> x_r e) * (c_l e + s e * (x - x_0 e))"

definition Z_fun :: "env \<Rightarrow> real \<Rightarrow> real" where
  "Z_fun e x =
     of_bool (x < x_0 e) * Z_l e + of_bool (x > x_r e) * Z_r e
     + of_bool (x \<ge> x_0 e) * of_bool (x \<le> x_r e) * (Z_l e + sZ e * (x - x_0 e))
     + oscillate e * of_bool (x > x_0 e) * of_bool (x < x_r e) * sin (10 * pi * x)"

definition Z_prime :: "env \<Rightarrow> real \<Rightarrow> real" where
  "Z_prime e x =
     (if oscillate e = 0 then sZ e
      else sZ e + oscillate e * 10 * pi * cos (10 * pi * x))"

section \<open>Characteristic path and travel time\<close>

text \<open>
  \<^verbatim>\<open>
  def X(t):
      "x-location of a characteristic that leaves x=0 at t=0 (going to the right) and is not reflected."
      return (t<=0)*0 + (t>=t_r)*x_r + (t>0)*(t<t_r)*c_l/s*(np.exp(s*t)-1)

  def T(x):
      "Time taken for a characteristic to reach x (from zero)."
      return 1./s*np.log(s*x/c_l+1)
  \<close>
  Python evaluates \<^verbatim>\<open>a*b*c/s*d\<close> from the left; the terms below keep that order.
  Division by \<^verbatim>\<open>s\<close> or \<^verbatim>\<open>c_l\<close> equal to zero and the logarithm of a non-positive
  number have no real value in the program; the theorems about \<open>X\<close> and \<open>T\<close> therefore
  carry the hypotheses that keep both defined.

  All three summands of \<^verbatim>\<open>X\<close> are evaluated whatever the indicators are, so
  \<^verbatim>\<open>np.exp(s*t)\<close> is computed also for \<open>t\<close> outside the crossing window. In the
  program \<^verbatim>\<open>X(t)\<close> is \<^verbatim>\<open>nan\<close> there as soon as \<^verbatim>\<open>np.exp(s*t)\<close> overflows
  (with the parameters of Figure 8, \<^verbatim>\<open>X(-1000.)\<close> is \<^verbatim>\<open>nan\<close>), while the term
  below is \<open>0\<close> or \<open>x_r\<close>.
\<close>

definition X :: "env \<Rightarrow> real \<Rightarrow> real" where
  "X e t =
     of_bool (t \<le> 0) * 0 + of_bool (t \<ge> t_r e) * x_r e
     + of_bool (t > 0) * of_bool (t < t_r e) * c_l e / s e * (exp (s e * t) - 1)"

definition T :: "env \<Rightarrow> real \<Rightarrow> real" where
  "T e x = 1 / s e * ln (s e * x / c_l e + 1)"

section \<open>External quadrature\<close>

text \<open>
  The amplitude terms call \<^verbatim>\<open>scipy.integrate.quad\<close>, \<^verbatim>\<open>dblquad\<close> and
  \<^verbatim>\<open>tplquad\<close> (with \<^verbatim>\<open>epsabs=1.e-3, epsrel=1.e-3\<close>) and keep component \<^verbatim>\<open>[0]\<close> of
  the answer. The routines are library code outside the repository, so the evaluators take
  them as a parameter: \<open>quad f a b\<close>, \<open>dblquad f a b gfun hfun\<close> and
  \<open>tplquad f a b gfun hfun qfun rfun\<close> stand for the value the library returns.
\<close>

record quadrature =
  quad :: "(real \<Rightarrow> real) \<Rightarrow> real \<Rightarrow> real \<Rightarrow> real"
  dblquad :: "(real \<Rightarrow> real \<Rightarrow> real) \<Rightarrow> real \<Rightarrow> real \<Rightarrow> (real \<Rightarrow> real) \<Rightarrow> (real \<Rightarrow> real) \<Rightarrow> real"
  tplquad :: "(real \<Rightarrow> real \<Rightarrow> real \<Rightarrow> real) \<Rightarrow> real \<Rightarrow> real \<Rightarrow> (real \<Rightarrow> real) \<Rightarrow> (real \<Rightarrow> real)
              \<Rightarrow> (real \<Rightarrow> real \<Rightarrow> real) \<Rightarrow> (real \<Rightarrow> real \<Rightarrow> real) \<Rightarrow> real"

text \<open>
  One concrete instance, for evaluating the model at concrete inputs: the one-point
  midpoint rule, nested in scipy's argument order (the innermost variable comes first).
\<close>

definition midpoint :: "(real \<Rightarrow> real) \<Rightarrow> real \<Rightarrow> real \<Rightarrow> real" where
  "midpoint f a b = (b - a) * f ((a + b) / 2)"

definition midpoint_rule :: quadrature where
  "midpoint_rule =
     \<lparr>quad = midpoint,
      dblquad = (\<lambda>f a b g h. midpoint (\<lambda>x. midpoint (\<lambda>y. f y x) (g x) (h x)) a b),
      tplquad = (\<lambda>f a b g h q r.
         midpoint (\<lambda>x. midpoint (\<lambda>y. midpoint (\<lambda>z. f z y x) (q x y) (r x y)) (g x) (h x)) a b)\<rparr>"

text \<open>
  A second instance that returns 1 for every integral, so that each amplitude term an
  order includes is visible in the value of a concrete evaluation.
\<close>

definition unit_quadrature :: quadrature where
  "unit_quadrature =
     \<lparr>quad = (\<lambda>f a b. 1), dblquad = (\<lambda>f a b g h. 1), tplquad = (\<lambda>f a b g h q r. 1)\<rparr>"

section \<open>Errors\<close>

text \<open>
  The only \<^verbatim>\<open>raise\<close> statements of the notebook are the two order checks; each raises
  \<^verbatim>\<open>Exception(message)\<close>.
\<close>

datatype error = Exception string

section \<open>Position arrays\<close>

text \<open>
  The evaluators take the positions as a numpy array. Its element type matters in one
  place: \<^verbatim>\<open>np.zeros_like(x)\<close> makes an array of the element type of \<open>x\<close>, and a value
  stored into an integer array is truncated towards zero. In arithmetic with a float
  (\<^verbatim>\<open>x/c_l\<close>, \<^verbatim>\<open>x-x_r\<close>, the comparisons) an integer entry is its value as a float.
\<close>

datatype ndarray = Float64 "real list" | Int64 "int list"

fun entries :: "ndarray \<Rightarrow> real list" where
  "entries (Float64 xs) = xs"
| "entries (Int64 ks) = map real_of_int ks"

text \<open>What a value \<open>v\<close> becomes when it is stored into \<^verbatim>\<open>np.zeros_like(x)\<close>.\<close>

fun cast_like :: "ndarray \<Rightarrow> real \<Rightarrow> real" where
  "cast_like (Float64 xs) v = v"
| "cast_like (Int64 ks) v = real_of_int (if 0 \<le> v then \<lfloor>v\<rfloor> else \<lceil>v\<rceil>)"

section \<open>Transmitted wave\<close>

text \<open>
  \<^verbatim>\<open>
  def T0(t,w):
      x_init = (t-t_r)*(-c_l)
      return (x_init<x_0)*(x_init>-w)*np.sqrt(Z_r/Z_l)
  \<close>
\<close>

definition T0 :: "env \<Rightarrow> real \<Rightarrow> real \<Rightarrow> real" where
  "T0 e t w =
     (let x_init = (t - t_r e) * (- c_l e)
      in of_bool (x_init < x_0 e) * of_bool (x_init > - w) * sqrt (Z_r e / Z_l e))"

text \<open>
  \<^verbatim>\<open>
  def T2(t):
      def integrand(x1):
          x2_lower = X(T(x1)-(t-t_r)/2)
          x2_upper = X(T(x1)-(t-t_r-t_w)/2)
          return -Z_prime(x1)/(4.*Z_fun(x1))*(np.log(Z_fun(min(x2_upper,x1)))-np.log(Z_fun(min(x2_lower,x1))))
      if (t<t_r) or (t>3*t_r+t_w):
          return 0
      else:
          return (Z_r/Z_l)**(1./2)*integrate.quad(integrand,0,x_r,epsabs=1.e-3,epsrel=1.e-3)[0]
  \<close>
  \<^verbatim>\<open>t_w = w/c_l\<close> is bound in the enclosing \<^verbatim>\<open>transmitted_wave\<close>. The helpers
  \<^verbatim>\<open>alpha2\<close> and \<^verbatim>\<open>gamma2\<close> inside \<^verbatim>\<open>T2\<close> are never called and are left out.
\<close>

definition T2_integrand :: "env \<Rightarrow> real \<Rightarrow> real \<Rightarrow> real \<Rightarrow> real" where
  "T2_integrand e w t x1 =
     (let t_w = w / c_l e;
          x2_lower = X e (T e x1 - (t - t_r e) / 2);
          x2_upper = X e (T e x1 - (t - t_r e - t_w) / 2)
      in - Z_prime e x1 / (4 * Z_fun e x1)
           * (ln (Z_fun e (min x2_upper x1)) - ln (Z_fun e (min x2_lower x1))))"

definition T2 :: "env \<Rightarrow> quadrature \<Rightarrow> real \<Rightarrow> real \<Rightarrow> real" where
  "T2 e q w t =
     (let t_w = w / c_l e
      in if t < t_r e \<or> t > 3 * t_r e + t_w then 0
         else (Z_r e / Z_l e) powr (1 / 2) * quad q (T2_integrand e w t) 0 (x_r e))"

text \<open>
  \<^verbatim>\<open>
  def T4(t):
      def integrand4(x_3, x_2, x_1):
          x4_lower = X(T(x_1)+T(x_3)-T(x_2)-(t-t_r)/2)
          x4_upper = X(T(x_1)+T(x_3)-T(x_2)-(t-t_r-t_w)/2)
          return -Z_prime(x_1)*Z_prime(x_2)*Z_prime(x_3)/16*np.log(Z_fun(min(x4_lower,x_3))/Z_fun(min(x4_upper,x_3)))/(Z_fun(x_1)*Z_fun(x_2)*Z_fun(x_3))
      def zerofun(x): return 0
      def identity(x_1): return x_1
      def identity2(x_1, x_2): return x_2
      def x_r_fun(x_1, x_2): return x_r
      if (t<t_r) or (t>5*t_r+t_w):
          return 0
      else:
          return (Z_r/Z_l)**(1/2)*integrate.tplquad(integrand4,0,x_r,zerofun,identity,identity2,x_r_fun,
                                                    epsabs=1.e-3,epsrel=1.e-3)[0]
  \<close>
\<close>

definition integrand4 :: "env \<Rightarrow> real \<Rightarrow> real \<Rightarrow> real \<Rightarrow> real \<Rightarrow> real \<Rightarrow> real" where
  "integrand4 e w t x_3 x_2 x_1 =
     (let t_w = w / c_l e;
          x4_lower = X e (T e x_1 + T e x_3 - T e x_2 - (t - t_r e) / 2);
          x4_upper = X e (T e x_1 + T e x_3 - T e x_2 - (t - t_r e - t_w) / 2)
      in - Z_prime e x_1 * Z_prime e x_2 * Z_prime e x_3 / 16
           * ln (Z_fun e (min x4_lower x_3) / Z_fun e (min x4_upper x_3))
           / (Z_fun e x_1 * Z_fun e x_2 * Z_fun e x_3))"

definition T4 :: "env \<Rightarrow> quadrature \<Rightarrow> real \<Rightarrow> real \<Rightarrow> real" where
  "T4 e q w t =
     (let t_w = w / c_l e
      in if t < t_r e \<or> t > 5 * t_r e + t_w then 0
         else (Z_r e / Z_l e) powr (1 / 2)
              * tplquad q (integrand4 e w t) 0 (x_r e)
                  (\<lambda>x. 0) (\<lambda>x_1. x_1) (\<lambda>x_1 x_2. x_2) (\<lambda>x_1 x_2. x_r e))"

text \<open>
  The body of \<^verbatim>\<open>transmitted_wave(x,t,w=1.,N=2)\<close>:
  \<^verbatim>\<open>
  t_w = w/c_l
  ...
  if N>4: raise Exception('Transmitted terms beyond N=4 have not been coded.')
  T_0 = T0(t-(x-x_r)/c_r,w)
  T_2 = np.zeros_like(x)
  T_4 = np.zeros_like(x)
  if N>=2:
      for i, xx in enumerate(x):
          tt = t-(xx-x_r)/c_r
          if tt>t_r and tt<(3*t_r+t_w):
              T_2[i] = T2(tt)
          if tt>t_r and tt<(5*t_r+t_w) and N>=4:
              T_4[i] = T4(tt)
  return (x>x_r)*(T_0 + T_2 + T_4)
  \<close>
  The order \<open>N\<close> is a Python integer. The loop is a recursion over \<^verbatim>\<open>enumerate(x)\<close>
  that passes the two arrays it writes; \<open>T_2\<close> and \<open>T_4\<close> have the element type of \<open>x\<close>,
  so every store goes through \<open>cast_like x\<close>. Array arithmetic is entry by entry over the
  indices of \<open>x\<close>.
\<close>

fun trans_loop ::
  "env \<Rightarrow> quadrature \<Rightarrow> ndarray \<Rightarrow> real \<Rightarrow> real \<Rightarrow> int \<Rightarrow> (nat \<times> real) list
   \<Rightarrow> real list \<times> real list \<Rightarrow> real list \<times> real list" where
  "trans_loop e q x t w N [] (T_2, T_4) = (T_2, T_4)"
| "trans_loop e q x t w N ((i, xx) # rest) (T_2, T_4) =
     (let t_w = w / c_l e;
          tt = t - (xx - x_r e) / c_r e;
          T_2' = (if tt > t_r e \<and> tt < 3 * t_r e + t_w
                  then T_2[i := cast_like x (T2 e q w tt)] else T_2);
          T_4' = (if tt > t_r e \<and> tt < 5 * t_r e + t_w \<and> N \<ge> 4
                  then T_4[i := cast_like x (T4 e q w tt)] else T_4)
      in trans_loop e q x t w N rest (T_2', T_4'))"

text \<open>The three arrays \<open>(T_0, T_2, T_4)\<close> as they stand when the loop is done.\<close>

definition trans_terms ::
  "env \<Rightarrow> quadrature \<Rightarrow> ndarray \<Rightarrow> real \<Rightarrow> real \<Rightarrow> int \<Rightarrow> real list \<times> real list \<times> real list" where
  "trans_terms e q x t w N =
     (let T_0 = map (\<lambda>xx. T0 e (t - (xx - x_r e) / c_r e) w) (entries x);
          zeros = replicate (length (entries x)) 0;
          (T_2, T_4) = (if N \<ge> 2
                        then trans_loop e q x t w N (enumerate 0 (entries x)) (zeros, zeros)
                        else (zeros, zeros))
      in (T_0, T_2, T_4))"

definition transmitted_wave ::
  "env \<Rightarrow> quadrature \<Rightarrow> ndarray \<Rightarrow> real \<Rightarrow> real \<Rightarrow> int \<Rightarrow> error + real list" where
  "transmitted_wave e q x t w N =
     (if N > 4 then Inl (Exception ''Transmitted terms beyond N=4 have not been coded.'')
      else (case trans_terms e q x t w N of
              (T_0, T_2, T_4) \<Rightarrow>
                Inr (map (\<lambda>i. of_bool (entries x ! i > x_r e) * (T_0 ! i + T_2 ! i + T_4 ! i))
                         [0..<length (entries x)])))"

section \<open>Reflected wave\<close>

text \<open>
  \<^verbatim>\<open>
  t_w = w/c_l
  def alpha(t):
      return (t < w/c_l)*0 + (t < (2*t_r + t_w))*X((t-t_w)/2.)
  def beta(t):
      return (t < 2*t_r)*X(t/2.) + (t > 2*t_r)*(t < (2*t_r + t_w))*x_r
  def R_1(t):
      return (t>0) * 0.5 * np.log(Z_fun(beta(t))/Z_fun(alpha(t)))
  \<close>
\<close>

definition alpha :: "env \<Rightarrow> real \<Rightarrow> real \<Rightarrow> real" where
  "alpha e w t =
     (let t_w = w / c_l e
      in of_bool (t < w / c_l e) * 0 + of_bool (t < 2 * t_r e + t_w) * X e ((t - t_w) / 2))"

definition beta :: "env \<Rightarrow> real \<Rightarrow> real \<Rightarrow> real" where
  "beta e w t =
     (let t_w = w / c_l e
      in of_bool (t < 2 * t_r e) * X e (t / 2)
         + of_bool (t > 2 * t_r e) * of_bool (t < 2 * t_r e + t_w) * x_r e)"

definition R_1 :: "env \<Rightarrow> real \<Rightarrow> real \<Rightarrow> real" where
  "R_1 e w t = of_bool (t > 0) * (1 / 2) * ln (Z_fun e (beta e w t) / Z_fun e (alpha e w t))"

text \<open>
  \<^verbatim>\<open>
  def R3(t):
      t_w = w/c_l
      def integrand(x2,x1):
          x3_upper = X(t/2-T(x1)+T(x2))
          x3_lower = X((t-t_w)/2 + T(x2) - T(x1))
          return Z_prime(x1)*Z_prime(x2)/8.*np.log(Z_fun(max(x2,x3_lower))/Z_fun(max(x2,x3_upper)))/(Z_fun(x1)*Z_fun(x2))
      def zerofun(x1): return 0
      def identity(x1): return x1
      if (t>(4*t_r + t_w)):
          return 0
      else:
          b = X(t/2)
          return integrate.dblquad(integrand,0,b,zerofun,identity,epsabs=1.e-3,epsrel=1.e-3)[0]
  \<close>
\<close>

definition R3_integrand :: "env \<Rightarrow> real \<Rightarrow> real \<Rightarrow> real \<Rightarrow> real \<Rightarrow> real" where
  "R3_integrand e w t x2 x1 =
     (let t_w = w / c_l e;
          x3_upper = X e (t / 2 - T e x1 + T e x2);
          x3_lower = X e ((t - t_w) / 2 + T e x2 - T e x1)
      in Z_prime e x1 * Z_prime e x2 / 8
           * ln (Z_fun e (max x2 x3_lower) / Z_fun e (max x2 x3_upper))
           / (Z_fun e x1 * Z_fun e x2))"

definition R3 :: "env \<Rightarrow> quadrature \<Rightarrow> real \<Rightarrow> real \<Rightarrow> real" where
  "R3 e q w t =
     (let t_w = w / c_l e
      in if t > 4 * t_r e + t_w then 0
         else (let b = X e (t / 2)
               in dblquad q (R3_integrand e w t) 0 b (\<lambda>x1. 0) (\<lambda>x1. x1)))"

text \<open>
  The body of \<^verbatim>\<open>reflected_wave(x,t,w=1.,N=3)\<close>:
  \<^verbatim>\<open>
  if N>4: raise Exception('Reflection terms beyond n=3 have not been coded.')
  R_3 = np.zeros_like(x)
  if N>=3:
      for i, xx in enumerate(x):
          tt = t+xx/c_l
          R_3[i] = R3(tt)
  return (x<x_0)*(R_1(t+x/c_l)+R_3)
  \<close>
  \<open>R_3\<close> has the element type of \<open>x\<close>; the sum with \<open>R_1\<close> and the product with the mask
  are float arithmetic.
\<close>

fun refl_loop ::
  "env \<Rightarrow> quadrature \<Rightarrow> ndarray \<Rightarrow> real \<Rightarrow> real \<Rightarrow> (nat \<times> real) list \<Rightarrow> real list
   \<Rightarrow> real list" where
  "refl_loop e q x t w [] R_3 = R_3"
| "refl_loop e q x t w ((i, xx) # rest) R_3 =
     (let tt = t + xx / c_l e
      in refl_loop e q x t w rest (R_3[i := cast_like x (R3 e q w tt)]))"

text \<open>The array \<open>R_3\<close> as it stands when the loop is done.\<close>

definition refl_terms :: "env \<Rightarrow> quadrature \<Rightarrow> ndarray \<Rightarrow> real \<Rightarrow> real \<Rightarrow> int \<Rightarrow> real list" where
  "refl_terms e q x t w N =
     (let zeros = replicate (length (entries x)) 0
      in if N \<ge> 3 then refl_loop e q x t w (enumerate 0 (entries x)) zeros else zeros)"

definition reflected_wave ::
  "env \<Rightarrow> quadrature \<Rightarrow> ndarray \<Rightarrow> real \<Rightarrow> real \<Rightarrow> int \<Rightarrow> error + real list" where
  "reflected_wave e q x t w N =
     (if N > 4 then Inl (Exception ''Reflection terms beyond n=3 have not been coded.'')
      else (let R_3 = refl_terms e q x t w N
            in Inr (map (\<lambda>i. of_bool (entries x ! i < x_0 e)
                           * (R_1 e w (t + entries x ! i / c_l e) + R_3 ! i))
                        [0..<length (entries x)])))"

section \<open>The concrete parameter sets\<close>

lemma t_r_fig8: "t_r fig8 = ln 2"
  by (simp add: fig8_def globals_def Let_def ln_div)

lemma fig8_fields:
  "c_l fig8 = 2" "c_r fig8 = 1" "Z_l fig8 = 1/2" "Z_r fig8 = 1" "x_0 fig8 = 0" "x_r fig8 = 1"
  "s fig8 = -1" "sZ fig8 = 1/2" "oscillate fig8 = 0"
  by (simp_all add: fig8_def globals_def Let_def)

lemma fig8_crossing_time:
  "t_r fig8 = 1 / s fig8 * ln (s fig8 * x_r fig8 / c_l fig8 + 1)"
  by (simp add: fig8_def globals_def Let_def)

lemma fig8_well_formed:
  "0 < c_l fig8" "s fig8 \<noteq> 0" "0 < x_r fig8" "0 < s fig8 * x_r fig8 / c_l fig8 + 1"
  by (simp_all add: fig8_fields)

lemma shifted_fields:
  "c_l shifted = 1" "c_r shifted = 5/2" "x_0 shifted = -2" "x_r shifted = -1/2"
  "s shifted = 1" "t_r shifted = - ln 2"
  by (simp_all add: shifted_def globals_def Let_def ln_div)

lemma centred_fields:
  "c_l centred = 2" "c_r centred = 1" "x_0 centred = -1" "x_r centred = 1"
  "s centred = -1/2" "t_r centred = - 2 * ln (3/4)"
  by (simp_all add: centred_def globals_def Let_def)

section \<open>The profile outside the transition region\<close>

lemma c_fun_left: "x_0 e \<le> x_r e \<Longrightarrow> x < x_0 e \<Longrightarrow> c_fun e x = c_l e"
  by (simp add: c_fun_def)

lemma c_fun_right: "x_0 e \<le> x_r e \<Longrightarrow> x_r e < x \<Longrightarrow> c_fun e x = c_r e"
  by (simp add: c_fun_def)

lemma Z_fun_left: "x_0 e \<le> x_r e \<Longrightarrow> x < x_0 e \<Longrightarrow> Z_fun e x = Z_l e"
  by (simp add: Z_fun_def)

lemma Z_fun_right: "x_0 e \<le> x_r e \<Longrightarrow> x_r e < x \<Longrightarrow> Z_fun e x = Z_r e"
  by (simp add: Z_fun_def)

text \<open>
  Claim C8. For a profile whose transition region is \<open>[x_0, x_r]\<close> (so \<open>x_0 \<le> x_r\<close>),
  every \<open>x\<close> to the left of the region, \<open>x < x_0\<close>, has \<open>c_fun x = c_l\<close> and
  \<open>Z_fun x = Z_l\<close>, and every \<open>x\<close> to the right, \<open>x > x_r\<close>, has \<open>c_fun x = c_r\<close> and
  \<open>Z_fun x = Z_r\<close>, whatever the oscillation amplitude. Both evaluators are compositions
  of comparisons, products, sums and a sine, none of which raises: they are total functions
  of \<open>x\<close>.
\<close>

theorem profile_outside_region:
  assumes "x_0 e \<le> x_r e"
  shows "(x < x_0 e \<longrightarrow> c_fun e x = c_l e \<and> Z_fun e x = Z_l e)
       \<and> (x_r e < x \<longrightarrow> c_fun e x = c_r e \<and> Z_fun e x = Z_r e)"
  using assms by (simp add: c_fun_left c_fun_right Z_fun_left Z_fun_right)

theorem profile_outside_region_witness:
  "c_fun fig8 (-1) = 2 \<and> Z_fun fig8 (-1) = 1/2 \<and> c_fun fig8 2 = 1 \<and> Z_fun fig8 2 = 1"
  using profile_outside_region [of fig8 "-1"] profile_outside_region [of fig8 2]
  by (simp add: fig8_fields)

section \<open>Continuity of the profile at the joints\<close>

text \<open>
  With the slopes set as the notebook sets them and no oscillation, both profile functions
  are a line in the position clamped to \<open>[x_0, x_r]\<close>.
\<close>

lemma c_fun_clamped:
  assumes "x_0 e < x_r e" and "s e = (c_r e - c_l e) / (x_r e - x_0 e)"
  shows "c_fun e x = c_l e + s e * (max (x_0 e) (min x (x_r e)) - x_0 e)"
proof -
  have slope: "s e * (x_r e - x_0 e) = c_r e - c_l e"
    using assms by simp
  consider "x < x_0 e" | "x_0 e \<le> x" "x \<le> x_r e" | "x_r e < x" by linarith
  then show ?thesis
  proof cases
    case 1
    then have "max (x_0 e) (min x (x_r e)) = x_0 e" using assms(1) by simp
    then show ?thesis using 1 assms(1) by (simp add: c_fun_def)
  next
    case 2
    then have "max (x_0 e) (min x (x_r e)) = x" by simp
    then show ?thesis using 2 by (simp add: c_fun_def)
  next
    case 3
    then have "max (x_0 e) (min x (x_r e)) = x_r e" using assms(1) by simp
    then show ?thesis using 3 assms(1) slope by (simp add: c_fun_def)
  qed
qed

lemma Z_fun_clamped:
  assumes "oscillate e = 0" and "x_0 e < x_r e" and "sZ e = (Z_r e - Z_l e) / (x_r e - x_0 e)"
  shows "Z_fun e x = Z_l e + sZ e * (max (x_0 e) (min x (x_r e)) - x_0 e)"
proof -
  have slope: "sZ e * (x_r e - x_0 e) = Z_r e - Z_l e"
    using assms by simp
  consider "x < x_0 e" | "x_0 e \<le> x" "x \<le> x_r e" | "x_r e < x" by linarith
  then show ?thesis
  proof cases
    case 1
    then have "max (x_0 e) (min x (x_r e)) = x_0 e" using assms(2) by simp
    then show ?thesis using 1 assms(1,2) by (simp add: Z_fun_def)
  next
    case 2
    then have "max (x_0 e) (min x (x_r e)) = x" by simp
    then show ?thesis using 2 assms(1) by (simp add: Z_fun_def)
  next
    case 3
    then have "max (x_0 e) (min x (x_r e)) = x_r e" using assms(2) by simp
    then show ?thesis using 3 assms(1,2) slope by (simp add: Z_fun_def)
  qed
qed

lemma clamped_line_continuous:
  "isCont (\<lambda>x::real. a + b * (max lo (min x hi) - lo)) y"
  by (intro continuous_intros)

text \<open>
  Claim C7. With oscillation amplitude zero, \<open>x_0 < x_r\<close>,
  \<open>s = (c_r - c_l) / (x_r - x_0)\<close> and \<open>sZ = (Z_r - Z_l) / (x_r - x_0)\<close>, the profile
  takes the values of the adjacent constant pieces at the joints,
  \<open>c(x_0) = c_l\<close>, \<open>c(x_r) = c_l + s * (x_r - x_0) = c_r\<close>, \<open>Z(x_0) = Z_l\<close>,
  \<open>Z(x_r) = Z_r\<close>, and \<open>c\<close> and \<open>Z\<close> are continuous at \<open>x_0\<close> and at \<open>x_r\<close>.
\<close>

theorem profile_continuous_at_joints:
  assumes "oscillate e = 0" and "x_0 e < x_r e"
    and "s e = (c_r e - c_l e) / (x_r e - x_0 e)"
    and "sZ e = (Z_r e - Z_l e) / (x_r e - x_0 e)"
  shows "c_fun e (x_0 e) = c_l e \<and> c_fun e (x_r e) = c_l e + s e * (x_r e - x_0 e)
         \<and> c_fun e (x_r e) = c_r e
         \<and> Z_fun e (x_0 e) = Z_l e \<and> Z_fun e (x_r e) = Z_r e
         \<and> isCont (c_fun e) (x_0 e) \<and> isCont (c_fun e) (x_r e)
         \<and> isCont (Z_fun e) (x_0 e) \<and> isCont (Z_fun e) (x_r e)"
proof -
  have c: "c_fun e = (\<lambda>x. c_l e + s e * (max (x_0 e) (min x (x_r e)) - x_0 e))"
    by (rule ext) (rule c_fun_clamped [OF assms(2,3)])
  have Z: "Z_fun e = (\<lambda>x. Z_l e + sZ e * (max (x_0 e) (min x (x_r e)) - x_0 e))"
    by (rule ext) (rule Z_fun_clamped [OF assms(1,2,4)])
  have slope: "s e * (x_r e - x_0 e) = c_r e - c_l e"
    using assms(2,3) by simp
  have slopeZ: "sZ e * (x_r e - x_0 e) = Z_r e - Z_l e"
    using assms(2,4) by simp
  have v1: "c_fun e (x_0 e) = c_l e" using assms(2) by (simp add: c_fun_def)
  have v2: "c_fun e (x_r e) = c_l e + s e * (x_r e - x_0 e)"
    using assms(2) by (simp add: c_fun_def)
  have v3: "c_fun e (x_r e) = c_r e" unfolding v2 slope by simp
  have v4: "Z_fun e (x_0 e) = Z_l e" using assms(2) by (simp add: Z_fun_def)
  have "Z_fun e (x_r e) = Z_l e + sZ e * (x_r e - x_0 e)"
    using assms(2) by (simp add: Z_fun_def)
  then have v5: "Z_fun e (x_r e) = Z_r e" unfolding slopeZ by simp
  have cc: "isCont (c_fun e) y" for y
    unfolding c by (rule clamped_line_continuous)
  have cZ: "isCont (Z_fun e) y" for y
    unfolding Z by (rule clamped_line_continuous)
  show ?thesis using v1 v2 v3 v4 v5 cc cZ by blast
qed

theorem profile_continuous_at_joints_witness:
  "c_fun fig8 0 = 2 \<and> c_fun fig8 1 = 1 \<and> Z_fun fig8 0 = 1/2 \<and> Z_fun fig8 1 = 1
   \<and> isCont (c_fun fig8) 0 \<and> isCont (c_fun fig8) 1
   \<and> isCont (Z_fun fig8) 0 \<and> isCont (Z_fun fig8) 1"
  using profile_continuous_at_joints [of fig8]
  by (simp add: fig8_fields)

section \<open>The characteristic path\<close>

text \<open>
  Inside the crossing window \<open>X\<close> is the closed-form path
  \<open>c_l / s * (exp (s * t) - 1)\<close>, which is strictly increasing in \<open>t\<close> for \<open>c_l > 0\<close>
  and either sign of \<open>s\<close>; \<open>T\<close> is its inverse where the logarithm is defined.
\<close>

lemma X_nonpos: "t \<le> 0 \<Longrightarrow> 0 < t_r e \<Longrightarrow> X e t = 0"
  by (simp add: X_def)

lemma X_late: "t_r e \<le> t \<Longrightarrow> X e t = x_r e"
  by (simp add: X_def)

lemma X_inside: "0 < t \<Longrightarrow> t < t_r e \<Longrightarrow> X e t = c_l e / s e * (exp (s e * t) - 1)"
  by (simp add: X_def)

lemma path_strict_mono:
  fixes e :: env
  assumes "0 < c_l e" and "s e \<noteq> 0" and "a < b"
  shows "c_l e / s e * (exp (s e * a) - 1) < c_l e / s e * (exp (s e * b) - 1)"
proof (cases "0 < s e")
  case True
  then have "exp (s e * a) - 1 < exp (s e * b) - 1" using assms(3) by simp
  moreover have "0 < c_l e / s e" using True assms(1) by simp
  ultimately show ?thesis by (rule mult_strict_left_mono)
next
  case False
  then have neg: "s e < 0" using assms(2) by simp
  then have "exp (s e * b) - 1 < exp (s e * a) - 1" using assms(3) by simp
  moreover have "c_l e / s e < 0" using neg assms(1) by (simp add: divide_pos_neg)
  ultimately show ?thesis by (rule mult_strict_left_mono_neg)
qed

lemma path_at_zero: "c_l e / s e * (exp (s e * 0) - 1) = 0" for e :: env
  by simp

lemma path_at_t_r:
  fixes e :: env
  assumes "0 < c_l e" and "s e \<noteq> 0" and "0 < s e * x_r e / c_l e + 1"
    and "t_r e = 1 / s e * ln (s e * x_r e / c_l e + 1)"
  shows "c_l e / s e * (exp (s e * t_r e) - 1) = x_r e"
proof -
  have "s e * t_r e = ln (s e * x_r e / c_l e + 1)"
    using assms(2,4) by simp
  then have "exp (s e * t_r e) = s e * x_r e / c_l e + 1"
    using assms(3) by simp
  then show ?thesis using assms(1,2) by simp
qed

lemma T_of_path:
  assumes "c_l e \<noteq> 0" and "s e \<noteq> 0"
  shows "T e (c_l e / s e * (exp (s e * t) - 1)) = t"
proof -
  have "s e * (c_l e / s e * (exp (s e * t) - 1)) / c_l e + 1 = exp (s e * t)"
    using assms by simp
  then show ?thesis
    unfolding T_def using assms(2) by simp
qed

lemma path_of_T:
  assumes "c_l e \<noteq> 0" and "s e \<noteq> 0" and "0 < s e * x / c_l e + 1"
  shows "c_l e / s e * (exp (s e * T e x) - 1) = x"
proof -
  have "s e * T e x = ln (s e * x / c_l e + 1)"
    using assms(2) by (simp add: T_def)
  then have "exp (s e * T e x) = s e * x / c_l e + 1"
    using assms(3) by simp
  then show ?thesis using assms(1,2) by simp
qed

lemma T_zero: "T e 0 = 0"
  by (simp add: T_def)

lemma t_r_is_T: "t_r e = 1 / s e * ln (s e * x_r e / c_l e + 1) \<Longrightarrow> t_r e = T e (x_r e)"
  by (simp add: T_def)

text \<open>Where the logarithm is defined, \<open>T\<close> is strictly increasing.\<close>

lemma T_strict_mono:
  assumes "0 < c_l e" and "s e \<noteq> 0" and "a < b"
    and "0 < s e * a / c_l e + 1" and "0 < s e * b / c_l e + 1"
  shows "T e a < T e b"
proof (cases "0 < s e")
  case True
  then have "s e * a / c_l e + 1 < s e * b / c_l e + 1"
    using assms(1,3) by (simp add: divide_strict_right_mono)
  then have "ln (s e * a / c_l e + 1) < ln (s e * b / c_l e + 1)"
    using assms(4,5) by simp
  then show ?thesis
    unfolding T_def using True by (simp add: divide_strict_right_mono)
next
  case False
  then have neg: "s e < 0" using assms(2) by simp
  then have "s e * b < s e * a" using assms(3) by simp
  then have "s e * b / c_l e + 1 < s e * a / c_l e + 1"
    using assms(1) by (simp add: divide_strict_right_mono)
  then have "ln (s e * b / c_l e + 1) < ln (s e * a / c_l e + 1)"
    using assms(4,5) by simp
  then show ?thesis
    unfolding T_def using neg by (simp add: divide_strict_right_mono_neg)
qed

text \<open>Between two points where the logarithm is defined it is defined as well.\<close>

lemma log_arg_between:
  fixes e :: env
  assumes "0 < c_l e" and "0 \<le> x" and "x \<le> b" and "0 < s e * b / c_l e + 1"
  shows "0 < s e * x / c_l e + 1"
proof (cases "0 \<le> s e")
  case True
  then have "0 \<le> s e * x / c_l e" using assms(1,2) by simp
  then show ?thesis by simp
next
  case False
  then have "s e * b \<le> s e * x" using assms(3) by (simp add: mult_left_mono_neg)
  then have "s e * b / c_l e \<le> s e * x / c_l e"
    using assms(1) by (simp add: divide_right_mono)
  then show ?thesis using assms(4) by simp
qed

lemma t_r_pos:
  fixes e :: env
  assumes "0 < c_l e" and "s e \<noteq> 0" and "0 < x_r e" and "0 < s e * x_r e / c_l e + 1"
    and "t_r e = 1 / s e * ln (s e * x_r e / c_l e + 1)"
  shows "0 < t_r e"
proof -
  have "T e 0 < T e (x_r e)"
    using assms(1-4) by (intro T_strict_mono) simp_all
  then show ?thesis
    unfolding t_r_is_T [OF assms(5)] T_zero .
qed

text \<open>
  Claim C3, as stated, needs only \<open>c_l > 0\<close>, \<open>s \<noteq> 0\<close> and the formula for \<open>t_r\<close>. The
  parameter set \<open>shifted\<close> meets all three, yet its crossing time is \<open>- ln 2 < 0\<close>: at
  \<open>t = - ln 2 \<le> 0\<close> both \<^verbatim>\<open>(t<=0)\<close> and \<^verbatim>\<open>(t>=t_r)\<close> hold and \<open>X\<close> returns
  \<open>x_r = - 1/2\<close>, not \<open>0\<close>.
\<close>

theorem X_clamps_counterexample:
  "0 < c_l shifted \<and> s shifted \<noteq> 0
   \<and> s shifted = (c_r shifted - c_l shifted) / (x_r shifted - x_0 shifted)
   \<and> t_r shifted = 1 / s shifted * ln (s shifted * x_r shifted / c_l shifted + 1)
   \<and> - ln 2 \<le> (0::real) \<and> X shifted (- ln 2) = - 1 / 2"
proof -
  have "t_r shifted = 1 / s shifted * ln (s shifted * x_r shifted / c_l shifted + 1)"
    by (simp add: shifted_def globals_def Let_def)
  moreover have "X shifted (- ln 2) = - 1 / 2"
    by (simp add: X_def shifted_fields)
  ultimately show ?thesis by (simp add: shifted_fields)
qed

text \<open>
  Claim C3, amended. Under \<open>c_l > 0\<close>, \<open>s \<noteq> 0\<close>, \<open>x_r > 0\<close>,
  \<open>s * x_r / c_l + 1 > 0\<close> and \<open>t_r = (1 / s) * ln (s * x_r / c_l + 1)\<close>, the crossing
  time is positive, \<open>X t = 0\<close> for every \<open>t \<le> 0\<close> with \<open>s * t \<le> 709\<close>, and
  \<open>X t = x_r\<close> for every \<open>t \<ge> t_r\<close> with \<open>s * t \<le> 709\<close>. The bound keeps
  \<^verbatim>\<open>np.exp(s*t)\<close> finite; nothing is said about \<open>t\<close> beyond it.
\<close>

theorem X_clamps:
  fixes e :: env
  assumes "0 < c_l e" and "s e \<noteq> 0" and "0 < x_r e" and "0 < s e * x_r e / c_l e + 1"
    and "t_r e = 1 / s e * ln (s e * x_r e / c_l e + 1)"
  shows "0 < t_r e
         \<and> (t \<le> 0 \<and> s e * t \<le> 709 \<longrightarrow> X e t = 0)
         \<and> (t_r e \<le> t \<and> s e * t \<le> 709 \<longrightarrow> X e t = x_r e)"
proof (intro conjI impI)
  show pos: "0 < t_r e" using assms by (rule t_r_pos)
  {
    assume "t \<le> 0 \<and> s e * t \<le> 709"
    then have "t \<le> 0" by (rule conjunct1)
    then show "X e t = 0" using pos by (rule X_nonpos)
  }
  {
    assume "t_r e \<le> t \<and> s e * t \<le> 709"
    then have "t_r e \<le> t" by (rule conjunct1)
    then show "X e t = x_r e" by (rule X_late)
  }
qed

theorem X_clamps_witness: "0 < t_r fig8 \<and> X fig8 (-1) = 0 \<and> X fig8 1 = 1"
proof -
  have ln2: "ln (2::real) < 1" by (rule ln_2_less_1)
  have a: "0 < t_r fig8 \<and> ((-1::real) \<le> 0 \<and> s fig8 * (-1) \<le> 709 \<longrightarrow> X fig8 (-1) = 0)
           \<and> (t_r fig8 \<le> -1 \<and> s fig8 * (-1) \<le> 709 \<longrightarrow> X fig8 (-1) = x_r fig8)"
    by (rule X_clamps [OF fig8_well_formed fig8_crossing_time])
  have b: "0 < t_r fig8 \<and> ((1::real) \<le> 0 \<and> s fig8 * 1 \<le> 709 \<longrightarrow> X fig8 1 = 0)
           \<and> (t_r fig8 \<le> 1 \<and> s fig8 * 1 \<le> 709 \<longrightarrow> X fig8 1 = x_r fig8)"
    by (rule X_clamps [OF fig8_well_formed fig8_crossing_time])
  show ?thesis using a b ln2 by (simp add: fig8_fields t_r_fig8)
qed

text \<open>On the whole line \<open>X\<close> is the path at the time clamped to \<open>[0, t_r]\<close>.\<close>

lemma X_clamped_path:
  fixes e :: env
  assumes "0 < c_l e" and "s e \<noteq> 0" and "0 < x_r e" and "0 < s e * x_r e / c_l e + 1"
    and "t_r e = 1 / s e * ln (s e * x_r e / c_l e + 1)"
  shows "X e t = c_l e / s e * (exp (s e * max 0 (min t (t_r e))) - 1)"
proof -
  have pos: "0 < t_r e" using assms by (rule t_r_pos)
  consider "t \<le> 0" | "0 < t" "t < t_r e" | "t_r e \<le> t" by linarith
  then show ?thesis
  proof cases
    case 1
    then have "max 0 (min t (t_r e)) = 0" using pos by simp
    then show ?thesis using 1 pos by (simp add: X_nonpos)
  next
    case 2
    then have "max 0 (min t (t_r e)) = t" by simp
    then show ?thesis using 2 by (simp add: X_inside)
  next
    case 3
    then have "max 0 (min t (t_r e)) = t_r e" using pos by simp
    then show ?thesis using 3 path_at_t_r [OF assms(1,2,4,5)] by (simp add: X_late)
  qed
qed

text \<open>
  Claim C5, as stated under \<open>c_l > 0\<close>, \<open>s \<noteq> 0\<close> and the formula for \<open>t_r\<close>, fails
  for the parameter set \<open>shifted\<close>: there \<open>t_r < 0\<close>, so \<^verbatim>\<open>(t>=t_r)\<close> holds at \<open>t = 0\<close>
  and \<open>X 0 = x_r = - 1/2\<close>.
\<close>

theorem X_at_zero_counterexample:
  "0 < c_l shifted \<and> s shifted \<noteq> 0
   \<and> t_r shifted = 1 / s shifted * ln (s shifted * x_r shifted / c_l shifted + 1)
   \<and> X shifted 0 = - 1 / 2"
proof -
  have "t_r shifted = 1 / s shifted * ln (s shifted * x_r shifted / c_l shifted + 1)"
    by (simp add: shifted_def globals_def Let_def)
  moreover have "X shifted 0 = - 1 / 2"
    by (simp add: X_def shifted_fields)
  ultimately show ?thesis by (simp add: shifted_fields)
qed

text \<open>
  Claim C5, amended. Under \<open>c_l > 0\<close>, \<open>s \<noteq> 0\<close>, \<open>x_r > 0\<close>,
  \<open>s * x_r / c_l + 1 > 0\<close> and \<open>t_r = (1 / s) * ln (s * x_r / c_l + 1)\<close>:
  \<open>X 0 = 0\<close>, \<open>X t_r = x_r\<close>, \<open>X a \<le> X b\<close> for all \<open>a \<le> b\<close> with
  \<open>s * a \<le> 709\<close> and \<open>s * b \<le> 709\<close>, and \<open>X\<close> is strictly increasing on
  \<open>0 < t < t_r\<close>. The bound keeps \<^verbatim>\<open>np.exp\<close> finite at both times; nothing is said
  about times beyond it.
\<close>

theorem X_monotone:
  fixes e :: env
  assumes "0 < c_l e" and "s e \<noteq> 0" and "0 < x_r e" and "0 < s e * x_r e / c_l e + 1"
    and "t_r e = 1 / s e * ln (s e * x_r e / c_l e + 1)"
  shows "X e 0 = 0 \<and> X e (t_r e) = x_r e
         \<and> (\<forall>a b. a \<le> b \<and> s e * a \<le> 709 \<and> s e * b \<le> 709 \<longrightarrow> X e a \<le> X e b)
         \<and> (\<forall>a b. 0 < a \<and> a < b \<and> b < t_r e \<longrightarrow> X e a < X e b)"
proof (intro conjI allI impI)
  have pos: "0 < t_r e" using assms by (rule t_r_pos)
  show "X e 0 = 0" using pos by (simp add: X_nonpos)
  show "X e (t_r e) = x_r e" by (simp add: X_late)
next
  fix a b :: real
  assume "a \<le> b \<and> s e * a \<le> 709 \<and> s e * b \<le> 709"
  then have ab: "a \<le> b" by (rule conjunct1)
  let ?ca = "max 0 (min a (t_r e))" and ?cb = "max 0 (min b (t_r e))"
  have "min a (t_r e) \<le> min b (t_r e)" using ab by (intro min.mono) simp_all
  then have "?ca \<le> ?cb" by (intro max.mono) simp_all
  then consider "?ca = ?cb" | "?ca < ?cb" by linarith
  then have "c_l e / s e * (exp (s e * ?ca) - 1) \<le> c_l e / s e * (exp (s e * ?cb) - 1)"
  proof cases
    case 1
    show ?thesis unfolding 1 by (rule order_refl)
  next
    case 2
    show ?thesis by (rule less_imp_le [OF path_strict_mono [OF assms(1,2) 2]])
  qed
  then show "X e a \<le> X e b"
    by (simp only: X_clamped_path [OF assms])
next
  fix a b :: real
  assume "0 < a \<and> a < b \<and> b < t_r e"
  then have a: "0 < a" "a < t_r e" and b: "0 < b" "b < t_r e" and ab: "a < b" by auto
  show "X e a < X e b"
    unfolding X_inside [OF a] X_inside [OF b]
    using assms(1,2) ab by (rule path_strict_mono)
qed

theorem X_monotone_witness:
  "X fig8 0 = 0 \<and> X fig8 (ln 2) = 1 \<and> X fig8 (-1) \<le> X fig8 5
   \<and> X fig8 (ln 2 / 4) < X fig8 (ln 2 / 2)"
proof -
  have ln2: "0 < ln (2::real)" by simp
  have m: "X fig8 0 = 0 \<and> X fig8 (t_r fig8) = x_r fig8
         \<and> (\<forall>a b. a \<le> b \<and> s fig8 * a \<le> 709 \<and> s fig8 * b \<le> 709 \<longrightarrow> X fig8 a \<le> X fig8 b)
         \<and> (\<forall>a b. 0 < a \<and> a < b \<and> b < t_r fig8 \<longrightarrow> X fig8 a < X fig8 b)"
    by (rule X_monotone [OF fig8_well_formed fig8_crossing_time])
  moreover have "(-1::real) \<le> 5 \<and> s fig8 * (-1) \<le> 709 \<and> s fig8 * 5 \<le> 709"
    by (simp add: fig8_fields)
  ultimately have "X fig8 (-1) \<le> X fig8 5" by blast
  moreover have "X fig8 (ln 2 / 4) < X fig8 (ln 2 / 2)"
  proof -
    have "0 < ln 2 / (4::real) \<and> ln 2 / 4 < ln 2 / (2::real) \<and> ln 2 / 2 < t_r fig8"
      using ln2 by (simp add: t_r_fig8)
    then show ?thesis using m by blast
  qed
  ultimately show ?thesis using m by (simp add: fig8_fields t_r_fig8)
qed

text \<open>
  Claim C2, as stated, takes every \<open>x\<close> with \<open>x_0 < x < x_r\<close>. The path of the code
  starts at \<open>x = 0\<close>, not at \<open>x_0\<close>: in the parameter set \<open>centred\<close> the point
  \<open>x = - 1/2\<close> lies in the transition region, its travel time is negative, and
  \<open>X (T x) = 0\<close>.
\<close>

theorem X_T_inverse_counterexample:
  "0 < c_l centred
   \<and> s centred = (c_r centred - c_l centred) / (x_r centred - x_0 centred) \<and> s centred \<noteq> 0
   \<and> t_r centred = 1 / s centred * ln (s centred * x_r centred / c_l centred + 1)
   \<and> x_0 centred < - 1 / 2 \<and> - 1 / 2 < x_r centred
   \<and> X centred (T centred (- 1 / 2)) = 0"
proof -
  have tr: "t_r centred = 1 / s centred * ln (s centred * x_r centred / c_l centred + 1)"
    by (simp add: centred_def globals_def Let_def)
  have T: "T centred (- 1 / 2) = - 2 * ln (9 / 8)"
    by (simp add: T_def centred_fields)
  have neg: "- 2 * ln (9 / 8 :: real) < 0" by simp
  have pos: "0 < - 2 * ln (3 / 4 :: real)" by simp
  have "X centred (T centred (- 1 / 2)) = 0"
    unfolding T using neg pos by (simp add: X_def centred_fields)
  then show ?thesis using tr by (simp add: centred_fields)
qed

text \<open>
  Claim C2, amended. Under \<open>c_l > 0\<close>, \<open>s \<noteq> 0\<close>, \<open>s * x_r / c_l + 1 > 0\<close> and
  \<open>t_r = (1 / s) * ln (s * x_r / c_l + 1)\<close>: every \<open>t\<close> with \<open>0 < t < t_r\<close> has
  \<open>0 < X t < x_r\<close> and \<open>T (X t) = t\<close>, and every \<open>x\<close> with \<open>0 < x < x_r\<close> has
  \<open>0 < T x < t_r\<close> and \<open>X (T x) = x\<close>, exactly.
\<close>

theorem X_T_inverse:
  fixes e :: env
  assumes "0 < c_l e" and "s e \<noteq> 0" and "0 < s e * x_r e / c_l e + 1"
    and "t_r e = 1 / s e * ln (s e * x_r e / c_l e + 1)"
  shows "(0 < t \<and> t < t_r e \<longrightarrow> 0 < X e t \<and> X e t < x_r e \<and> T e (X e t) = t)
       \<and> (0 < x \<and> x < x_r e \<longrightarrow> 0 < T e x \<and> T e x < t_r e \<and> X e (T e x) = x)"
proof (intro conjI impI)
  have cl0: "c_l e \<noteq> 0" using assms(1) by simp
  {
    assume "0 < t \<and> t < t_r e"
    then have t: "0 < t" "t < t_r e" by auto
    have X: "X e t = c_l e / s e * (exp (s e * t) - 1)" using t by (rule X_inside)
    show "0 < X e t"
      using path_strict_mono [OF assms(1,2) t(1)] unfolding X path_at_zero .
    show "X e t < x_r e"
      using path_strict_mono [OF assms(1,2) t(2)] unfolding X path_at_t_r [OF assms] .
    show "T e (X e t) = t"
      unfolding X by (rule T_of_path [OF cl0 assms(2)])
  }
  {
    assume "0 < x \<and> x < x_r e"
    then have x: "0 < x" "x < x_r e" by auto
    have arg: "0 < s e * x / c_l e + 1"
      by (rule log_arg_between [OF assms(1) less_imp_le [OF x(1)] less_imp_le [OF x(2)] assms(3)])
    have zero: "0 < s e * 0 / c_l e + 1" by simp
    have lo: "T e 0 < T e x"
      by (rule T_strict_mono [OF assms(1,2) x(1) zero arg])
    have hi: "T e x < T e (x_r e)"
      by (rule T_strict_mono [OF assms(1,2) x(2) arg assms(3)])
    show Tpos: "0 < T e x" using lo unfolding T_zero .
    show Tlt: "T e x < t_r e" using hi unfolding t_r_is_T [OF assms(4)] .
    show "X e (T e x) = x"
      unfolding X_inside [OF Tpos Tlt] by (rule path_of_T [OF cl0 assms(2) arg])
  }
qed

theorem X_T_inverse_witness:
  "T fig8 (X fig8 (ln 2 / 2)) = ln 2 / 2 \<and> X fig8 (T fig8 (1 / 2)) = 1 / 2"
proof -
  have ln2: "0 < ln (2::real)" by simp
  have i: "(0 < ln 2 / (2::real) \<and> ln 2 / 2 < t_r fig8 \<longrightarrow>
              0 < X fig8 (ln 2 / 2) \<and> X fig8 (ln 2 / 2) < x_r fig8
              \<and> T fig8 (X fig8 (ln 2 / 2)) = ln 2 / 2)
         \<and> (0 < (1/2::real) \<and> 1/2 < x_r fig8 \<longrightarrow>
              0 < T fig8 (1/2) \<and> T fig8 (1/2) < t_r fig8 \<and> X fig8 (T fig8 (1/2)) = 1/2)"
    by (rule X_T_inverse [OF fig8_well_formed(1,2,4) fig8_crossing_time])
  have "0 < ln 2 / (2::real) \<and> ln 2 / 2 < t_r fig8" using ln2 by (simp add: t_r_fig8)
  moreover have "0 < (1/2::real) \<and> 1/2 < x_r fig8" by (simp add: fig8_fields)
  ultimately show ?thesis using i by blast
qed

section \<open>The loops, entry by entry\<close>

text \<open>
  Both loops write entry \<open>i\<close> of an array from entry \<open>i\<close> of \<open>x\<close> alone. The lemmas
  below read the arrays back after the loop; they are proved for a loop that starts at any
  index \<open>n\<close>, which is what the induction over the list needs.
\<close>

lemma cast_like_zero: "cast_like x 0 = 0"
  by (cases x) simp_all

lemma refl_loop_nth:
  "length R = n + length xs \<Longrightarrow> j < n + length xs \<Longrightarrow>
   refl_loop e q x t w (enumerate n xs) R ! j =
     (if n \<le> j then cast_like x (R3 e q w (t + xs ! (j - n) / c_l e)) else R ! j)"
proof (induction xs arbitrary: n R)
  case Nil
  then show ?case by simp
next
  case (Cons a xs)
  let ?R = "R[n := cast_like x (R3 e q w (t + a / c_l e))]"
  have len: "length ?R = Suc n + length xs" using Cons.prems(1) by simp
  have j: "j < Suc n + length xs" using Cons.prems(2) by simp
  have "refl_loop e q x t w (enumerate n (a # xs)) R ! j
        = refl_loop e q x t w (enumerate (Suc n) xs) ?R ! j"
    by (simp add: Let_def)
  also have "\<dots> = (if Suc n \<le> j then cast_like x (R3 e q w (t + xs ! (j - Suc n) / c_l e))
                    else ?R ! j)"
    by (rule Cons.IH [OF len j])
  also have "\<dots> = (if n \<le> j then cast_like x (R3 e q w (t + (a # xs) ! (j - n) / c_l e))
                    else R ! j)"
  proof (cases "j = n")
    case True
    then show ?thesis using Cons.prems by simp
  next
    case False
    then show ?thesis by (cases "n \<le> j") (auto simp: nth_Cons')
  qed
  finally show ?case .
qed

lemma refl_terms_nth:
  "i < length (entries x) \<Longrightarrow>
   refl_terms e q x t w N ! i =
     (if N \<ge> 3 then cast_like x (R3 e q w (t + entries x ! i / c_l e)) else 0)"
  using refl_loop_nth [of "replicate (length (entries x)) 0" 0 "entries x" i e q x t w]
  by (simp add: refl_terms_def)

lemma reflected_wave_closed:
  assumes N: "N \<le> 4"
  shows "reflected_wave e q x t w N =
     Inr (map (\<lambda>xx. of_bool (xx < x_0 e)
                * (R_1 e w (t + xx / c_l e)
                   + (if N \<ge> 3 then cast_like x (R3 e q w (t + xx / c_l e)) else 0)))
              (entries x))"
    (is "_ = Inr (map ?f (entries x))")
proof -
  define R_3 where "R_3 = refl_terms e q x t w N"
  let ?g = "\<lambda>i. of_bool (entries x ! i < x_0 e) * (R_1 e w (t + entries x ! i / c_l e) + R_3 ! i)"
  have "map ?g [0..<length (entries x)] = map ?f (entries x)"
  proof (rule nth_equalityI)
    show "length (map ?g [0..<length (entries x)]) = length (map ?f (entries x))"
      by simp
  next
    fix i
    assume "i < length (map ?g [0..<length (entries x)])"
    then have i: "i < length (entries x)" by simp
    show "map ?g [0..<length (entries x)] ! i = map ?f (entries x) ! i"
      using i by (simp only: nth_map nth_upt length_upt length_map minus_nat.diff_0 add_0
                    R_3_def refl_terms_nth [OF i])
  qed
  then show ?thesis
    using N by (simp only: reflected_wave_def Let_def R_3_def) simp
qed

lemma trans_loop_nth:
  "length A = n + length xs \<Longrightarrow> length B = n + length xs \<Longrightarrow> j < n + length xs \<Longrightarrow>
   trans_loop e q x t w N (enumerate n xs) (A, B) = (A', B') \<Longrightarrow>
   A' ! j = (if n \<le> j \<and> t_r e < t - (xs ! (j - n) - x_r e) / c_r e
                 \<and> t - (xs ! (j - n) - x_r e) / c_r e < 3 * t_r e + w / c_l e
             then cast_like x (T2 e q w (t - (xs ! (j - n) - x_r e) / c_r e)) else A ! j)
   \<and> B' ! j = (if n \<le> j \<and> t_r e < t - (xs ! (j - n) - x_r e) / c_r e
                 \<and> t - (xs ! (j - n) - x_r e) / c_r e < 5 * t_r e + w / c_l e \<and> 4 \<le> N
             then cast_like x (T4 e q w (t - (xs ! (j - n) - x_r e) / c_r e)) else B ! j)
   \<and> length A' = length A \<and> length B' = length B"
proof (induction xs arbitrary: n A B)
  case Nil
  then show ?case by simp
next
  case (Cons a xs)
  define tt where "tt = t - (a - x_r e) / c_r e"
  define A1 where "A1 = (if tt > t_r e \<and> tt < 3 * t_r e + w / c_l e
                         then A[n := cast_like x (T2 e q w tt)] else A)"
  define B1 where "B1 = (if tt > t_r e \<and> tt < 5 * t_r e + w / c_l e \<and> N \<ge> 4
                         then B[n := cast_like x (T4 e q w tt)] else B)"
  have lenA: "length A1 = Suc n + length xs" using Cons.prems(1) by (simp add: A1_def)
  have lenB: "length B1 = Suc n + length xs" using Cons.prems(2) by (simp add: B1_def)
  have j: "j < Suc n + length xs" using Cons.prems(3) by simp
  have step: "trans_loop e q x t w N (enumerate (Suc n) xs) (A1, B1) = (A', B')"
    using Cons.prems(4) unfolding A1_def B1_def tt_def
    by (simp add: Let_def split del: if_split)
  note IH = Cons.IH [OF lenA lenB j step]
  show ?case
  proof (cases "j = n")
    case True
    have "A1 ! n = (if tt > t_r e \<and> tt < 3 * t_r e + w / c_l e
                    then cast_like x (T2 e q w tt) else A ! n)"
      using Cons.prems(1) by (simp add: A1_def)
    moreover have "B1 ! n = (if tt > t_r e \<and> tt < 5 * t_r e + w / c_l e \<and> N \<ge> 4
                             then cast_like x (T4 e q w tt) else B ! n)"
      using Cons.prems(2) by (simp add: B1_def)
    ultimately show ?thesis using IH True lenA lenB Cons.prems(1,2)
      by (simp add: tt_def)
  next
    case False
    have "A1 ! j = A ! j" "B1 ! j = B ! j" using False by (simp_all add: A1_def B1_def)
    then show ?thesis using IH False lenA lenB Cons.prems(1,2)
      by (cases "n \<le> j") (auto simp: nth_Cons')
  qed
qed

lemma trans_terms_nth:
  assumes "i < length (entries x)" and "trans_terms e q x t w N = (T_0, T_2, T_4)"
  shows "T_0 ! i = T0 e (t - (entries x ! i - x_r e) / c_r e) w"
    and "T_2 ! i = (if 2 \<le> N \<and> t_r e < t - (entries x ! i - x_r e) / c_r e
                       \<and> t - (entries x ! i - x_r e) / c_r e < 3 * t_r e + w / c_l e
                    then cast_like x (T2 e q w (t - (entries x ! i - x_r e) / c_r e)) else 0)"
    and "T_4 ! i = (if 4 \<le> N \<and> t_r e < t - (entries x ! i - x_r e) / c_r e
                       \<and> t - (entries x ! i - x_r e) / c_r e < 5 * t_r e + w / c_l e
                    then cast_like x (T4 e q w (t - (entries x ! i - x_r e) / c_r e)) else 0)"
proof -
  let ?zeros = "replicate (length (entries x)) (0::real)"
  show "T_0 ! i = T0 e (t - (entries x ! i - x_r e) / c_r e) w"
    using assms by (auto simp: trans_terms_def Let_def split: prod.splits)
  show "T_2 ! i = (if 2 \<le> N \<and> t_r e < t - (entries x ! i - x_r e) / c_r e
                       \<and> t - (entries x ! i - x_r e) / c_r e < 3 * t_r e + w / c_l e
                    then cast_like x (T2 e q w (t - (entries x ! i - x_r e) / c_r e)) else 0)"
  proof (cases "2 \<le> N")
    case True
    then have "trans_loop e q x t w N (enumerate 0 (entries x)) (?zeros, ?zeros) = (T_2, T_4)"
      using assms(2) by (auto simp: trans_terms_def Let_def split: prod.splits)
    from trans_loop_nth [OF _ _ _ this, of i] assms(1) True show ?thesis by simp
  next
    case False
    then show ?thesis using assms by (auto simp: trans_terms_def Let_def split: prod.splits)
  qed
  show "T_4 ! i = (if 4 \<le> N \<and> t_r e < t - (entries x ! i - x_r e) / c_r e
                       \<and> t - (entries x ! i - x_r e) / c_r e < 5 * t_r e + w / c_l e
                    then cast_like x (T4 e q w (t - (entries x ! i - x_r e) / c_r e)) else 0)"
  proof (cases "2 \<le> N")
    case True
    then have "trans_loop e q x t w N (enumerate 0 (entries x)) (?zeros, ?zeros) = (T_2, T_4)"
      using assms(2) by (auto simp: trans_terms_def Let_def split: prod.splits)
    from trans_loop_nth [OF _ _ _ this, of i] assms(1) True show ?thesis by simp
  next
    case False
    then show ?thesis using assms by (auto simp: trans_terms_def Let_def split: prod.splits)
  qed
qed

lemma transmitted_wave_closed:
  assumes N: "N \<le> 4"
  shows "transmitted_wave e q x t w N =
     Inr (map (\<lambda>xx. of_bool (xx > x_r e)
                * (T0 e (t - (xx - x_r e) / c_r e) w
                   + (if 2 \<le> N \<and> t_r e < t - (xx - x_r e) / c_r e
                         \<and> t - (xx - x_r e) / c_r e < 3 * t_r e + w / c_l e
                      then cast_like x (T2 e q w (t - (xx - x_r e) / c_r e)) else 0)
                   + (if 4 \<le> N \<and> t_r e < t - (xx - x_r e) / c_r e
                         \<and> t - (xx - x_r e) / c_r e < 5 * t_r e + w / c_l e
                      then cast_like x (T4 e q w (t - (xx - x_r e) / c_r e)) else 0)))
              (entries x))"
    (is "_ = Inr (map ?f (entries x))")
proof -
  obtain T_0 T_2 T_4 where tt: "trans_terms e q x t w N = (T_0, T_2, T_4)"
    by (cases "trans_terms e q x t w N") auto
  let ?g = "\<lambda>i. of_bool (entries x ! i > x_r e) * (T_0 ! i + T_2 ! i + T_4 ! i)"
  have "map ?g [0..<length (entries x)] = map ?f (entries x)"
  proof (rule nth_equalityI)
    show "length (map ?g [0..<length (entries x)]) = length (map ?f (entries x))"
      by simp
  next
    fix i
    assume "i < length (map ?g [0..<length (entries x)])"
    then have i: "i < length (entries x)" by simp
    show "map ?g [0..<length (entries x)] ! i = map ?f (entries x) ! i"
      using i by (simp only: nth_map nth_upt length_upt length_map minus_nat.diff_0 add_0
                    trans_terms_nth [OF i tt])
  qed
  then show ?thesis
    using N by (simp only: transmitted_wave_def tt prod.case) simp
qed

section \<open>Truncation orders that raise\<close>

text \<open>
  Claim C6. Order 6 given to \<open>reflected_wave\<close> and order 8 given to \<open>transmitted_wave\<close>
  raise the coded exception, for every position array \<open>x\<close>, time \<open>t\<close> and pulse width
  \<open>w\<close>, and for every quadrature routine: the result does not depend on any amplitude.
\<close>

theorem order_six_and_eight_raise:
  "reflected_wave e q x t w 6
     = Inl (Exception ''Reflection terms beyond n=3 have not been coded.'')
   \<and> transmitted_wave e q x t w 8
     = Inl (Exception ''Transmitted terms beyond N=4 have not been coded.'')"
  by (simp add: reflected_wave_def transmitted_wave_def)



section \<open>The masks in exact arithmetic\<close>

text \<open>
  Claim C9 says that every entry of \<open>reflected_wave\<close> at a position \<open>x \<ge> x_0\<close> and every
  entry of \<open>transmitted_wave\<close> at a position \<open>x \<le> x_r\<close> is exactly zero. Over the reals
  the factor \<^verbatim>\<open>(x<x_0)\<close>, respectively \<^verbatim>\<open>(x>x_r)\<close>, does make those entries zero. The
  program multiplies floats: where the unmasked amplitude is \<^verbatim>\<open>nan\<close> the product
  \<^verbatim>\<open>False*nan\<close> is \<^verbatim>\<open>nan\<close>, not zero. With the parameters of Figure 8,
  \<^verbatim>\<open>reflected_wave(np.array([.5]), 1., 3000., N=0)\<close> evaluates \<^verbatim>\<open>R_1(1.25)\<close>, whose
  \<^verbatim>\<open>alpha\<close> is \<^verbatim>\<open>X(-749.375)\<close>; there \<open>s * t = 749.375\<close> is past the bound,
  \<^verbatim>\<open>np.exp\<close> overflows, and the call returns \<^verbatim>\<open>array([nan])\<close>. The first lemma
  locates that evaluation in the model; the second is the exact-arithmetic statement only.
\<close>

lemma alpha_at_large_pulse_width:
  "alpha fig8 3000 (1 + (1 / 2) / c_l fig8) = X fig8 (- 5995 / 8)
   \<and> 709 < s fig8 * (- 5995 / 8)"
proof -
  have "0 < ln (2::real)" by simp
  then have "(5 / 4 :: real) < 2 * ln 2 + 1500" by linarith
  then show ?thesis
    by (simp add: alpha_def Let_def fig8_fields t_r_fig8)
qed

lemma masked_entries_zero_over_reals:
  "(reflected_wave e q x t w N = Inr ys \<longrightarrow>
      length ys = length (entries x)
      \<and> (\<forall>i < length (entries x). x_0 e \<le> entries x ! i \<longrightarrow> ys ! i = 0))
   \<and> (transmitted_wave e q x t w N = Inr zs \<longrightarrow>
      length zs = length (entries x)
      \<and> (\<forall>i < length (entries x). entries x ! i \<le> x_r e \<longrightarrow> zs ! i = 0))"
proof (cases "N \<le> 4")
  case True
  show ?thesis
    unfolding reflected_wave_closed [OF True] transmitted_wave_closed [OF True]
    by auto
next
  case False
  then show ?thesis by (simp add: reflected_wave_def transmitted_wave_def)
qed

section \<open>Which terms an order sums\<close>

text \<open>
  Claim C10. For every position array \<open>x\<close> (of either element type), time \<open>t\<close>, pulse
  width \<open>w\<close> and quadrature routine, entry by entry over \<open>x\<close>:
  \<^item> \<open>reflected_wave\<close> with \<open>N\<close> in \<open>{0,1,2}\<close> returns the \<open>R_1\<close> contribution alone; with
    \<open>N = 3\<close> and with \<open>N = 4\<close> it is accepted and returns \<open>R_1\<close> plus the stored \<open>R_3\<close>,
    the same array for both orders;
  \<^item> \<open>transmitted_wave\<close> with \<open>N\<close> in \<open>{0,1}\<close> returns the \<open>T_0\<close> contribution alone; with
    \<open>N = 2\<close> and with \<open>N = 3\<close> it returns \<open>T_0\<close> plus the stored \<open>T_2\<close> inside the window
    \<open>t_r < tt < 3 * t_r + t_w\<close> and no \<open>T_4\<close> term, the same array for both orders; with
    \<open>N = 4\<close> the stored \<open>T_4\<close> is added inside \<open>t_r < tt < 5 * t_r + t_w\<close>.
\<close>

theorem orders_between_thresholds:
  "(N \<in> {0, 1, 2} \<longrightarrow>
      reflected_wave e q x t w N =
        Inr (map (\<lambda>xx. of_bool (xx < x_0 e) * R_1 e w (t + xx / c_l e)) (entries x)))
   \<and> (N \<in> {3, 4} \<longrightarrow>
      reflected_wave e q x t w N =
        Inr (map (\<lambda>xx. of_bool (xx < x_0 e)
                   * (R_1 e w (t + xx / c_l e) + cast_like x (R3 e q w (t + xx / c_l e))))
                 (entries x)))
   \<and> reflected_wave e q x t w 4 = reflected_wave e q x t w 3
   \<and> (N \<in> {0, 1} \<longrightarrow>
      transmitted_wave e q x t w N =
        Inr (map (\<lambda>xx. of_bool (xx > x_r e) * T0 e (t - (xx - x_r e) / c_r e) w) (entries x)))
   \<and> (N \<in> {2, 3} \<longrightarrow>
      transmitted_wave e q x t w N =
        Inr (map (\<lambda>xx. of_bool (xx > x_r e)
                   * (T0 e (t - (xx - x_r e) / c_r e) w
                      + (if t_r e < t - (xx - x_r e) / c_r e
                            \<and> t - (xx - x_r e) / c_r e < 3 * t_r e + w / c_l e
                         then cast_like x (T2 e q w (t - (xx - x_r e) / c_r e)) else 0)))
                 (entries x)))
   \<and> transmitted_wave e q x t w 3 = transmitted_wave e q x t w 2
   \<and> transmitted_wave e q x t w 4 =
        Inr (map (\<lambda>xx. of_bool (xx > x_r e)
                   * (T0 e (t - (xx - x_r e) / c_r e) w
                      + (if t_r e < t - (xx - x_r e) / c_r e
                            \<and> t - (xx - x_r e) / c_r e < 3 * t_r e + w / c_l e
                         then cast_like x (T2 e q w (t - (xx - x_r e) / c_r e)) else 0)
                      + (if t_r e < t - (xx - x_r e) / c_r e
                            \<and> t - (xx - x_r e) / c_r e < 5 * t_r e + w / c_l e
                         then cast_like x (T4 e q w (t - (xx - x_r e) / c_r e)) else 0)))
                 (entries x))"
proof (intro conjI impI)
  assume "N \<in> {0, 1, 2}"
  then have "N \<le> 4" "\<not> 3 \<le> N" by auto
  then show "reflected_wave e q x t w N =
        Inr (map (\<lambda>xx. of_bool (xx < x_0 e) * R_1 e w (t + xx / c_l e)) (entries x))"
    by (simp add: reflected_wave_closed)
next
  assume "N \<in> {3, 4}"
  then have "N \<le> 4" "3 \<le> N" by auto
  then show "reflected_wave e q x t w N =
        Inr (map (\<lambda>xx. of_bool (xx < x_0 e)
                   * (R_1 e w (t + xx / c_l e) + cast_like x (R3 e q w (t + xx / c_l e))))
                 (entries x))"
    by (simp add: reflected_wave_closed)
next
  show "reflected_wave e q x t w 4 = reflected_wave e q x t w 3"
    by (simp add: reflected_wave_closed)
next
  assume "N \<in> {0, 1}"
  then have "N \<le> 4" "\<not> 2 \<le> N" "\<not> 4 \<le> N" by auto
  then show "transmitted_wave e q x t w N =
        Inr (map (\<lambda>xx. of_bool (xx > x_r e) * T0 e (t - (xx - x_r e) / c_r e) w) (entries x))"
    by (simp add: transmitted_wave_closed)
next
  assume "N \<in> {2, 3}"
  then have "N \<le> 4" "2 \<le> N" "\<not> 4 \<le> N" by auto
  then show "transmitted_wave e q x t w N =
        Inr (map (\<lambda>xx. of_bool (xx > x_r e)
                   * (T0 e (t - (xx - x_r e) / c_r e) w
                      + (if t_r e < t - (xx - x_r e) / c_r e
                            \<and> t - (xx - x_r e) / c_r e < 3 * t_r e + w / c_l e
                         then cast_like x (T2 e q w (t - (xx - x_r e) / c_r e)) else 0)))
                 (entries x))"
    by (simp add: transmitted_wave_closed)
next
  show "transmitted_wave e q x t w 3 = transmitted_wave e q x t w 2"
    by (simp add: transmitted_wave_closed)
next
  show "transmitted_wave e q x t w 4 =
        Inr (map (\<lambda>xx. of_bool (xx > x_r e)
                   * (T0 e (t - (xx - x_r e) / c_r e) w
                      + (if t_r e < t - (xx - x_r e) / c_r e
                            \<and> t - (xx - x_r e) / c_r e < 3 * t_r e + w / c_l e
                         then cast_like x (T2 e q w (t - (xx - x_r e) / c_r e)) else 0)
                      + (if t_r e < t - (xx - x_r e) / c_r e
                            \<and> t - (xx - x_r e) / c_r e < 5 * t_r e + w / c_l e
                         then cast_like x (T4 e q w (t - (xx - x_r e) / c_r e)) else 0)))
                 (entries x))"
    by (simp add: transmitted_wave_closed)
qed

text \<open>
  Concrete values at the parameters of Figure 8 with \<open>t = 2\<close>, \<open>w = 10\<close> and the
  position \<open>x = 2\<close>: the causal time is \<open>tt = 1\<close>, inside both windows.
\<close>

lemma fig8_t_r_bounds:
  obtains L :: real where "t_r fig8 = L" and "0 < L" and "L < 1"
proof
  show "t_r fig8 = ln 2" by (rule t_r_fig8)
  show "0 < ln (2::real)" by simp
  show "ln (2::real) < 1" by (rule ln_2_less_1)
qed

lemma T0_fig8_open: "T0 fig8 1 10 = sqrt 2"
proof -
  obtain L :: real where L: "t_r fig8 = L" "0 < L" "L < 1" by (rule fig8_t_r_bounds)
  then show ?thesis
    by (simp add: T0_def Let_def fig8_fields)
qed

lemma T2_fig8_unit: "T2 fig8 unit_quadrature 10 1 = sqrt 2"
proof -
  obtain L :: real where L: "t_r fig8 = L" "0 < L" "L < 1" by (rule fig8_t_r_bounds)
  then show ?thesis
    by (simp add: T2_def Let_def fig8_fields unit_quadrature_def powr_half_sqrt)
qed

lemma T4_fig8_unit: "T4 fig8 unit_quadrature 10 1 = sqrt 2"
proof -
  obtain L :: real where L: "t_r fig8 = L" "0 < L" "L < 1" by (rule fig8_t_r_bounds)
  then show ?thesis
    by (simp add: T4_def Let_def fig8_fields unit_quadrature_def powr_half_sqrt)
qed

lemma R3_fig8_unit: "R3 fig8 unit_quadrature 1 (1 / 2) = 1"
proof -
  obtain L :: real where L: "t_r fig8 = L" "0 < L" "L < 1" by (rule fig8_t_r_bounds)
  then show ?thesis
    by (simp add: R3_def Let_def fig8_fields unit_quadrature_def)
qed

lemma floor_sqrt_2: "\<lfloor>sqrt 2 :: real\<rfloor> = 1"
proof -
  have "1 \<le> sqrt (2::real)" by simp
  moreover have "sqrt (2::real) < 2" by (rule real_less_lsqrt) simp_all
  ultimately show ?thesis by (simp add: floor_eq_iff)
qed

lemma window_fig8_open:
  "t_r fig8 < (1::real)" "(1::real) < 3 * t_r fig8 + 10 / c_l fig8"
  "(1::real) < 5 * t_r fig8 + 10 / c_l fig8"
proof -
  obtain L :: real where L: "t_r fig8 = L" "0 < L" "L < 1" by (rule fig8_t_r_bounds)
  show "t_r fig8 < (1::real)" using L by simp
  show "(1::real) < 3 * t_r fig8 + 10 / c_l fig8" using L by (simp add: fig8_fields)
  show "(1::real) < 5 * t_r fig8 + 10 / c_l fig8" using L by (simp add: fig8_fields)
qed

theorem orders_between_thresholds_witness:
  "transmitted_wave fig8 unit_quadrature (Float64 [2]) 2 10 1 = Inr [sqrt 2]
   \<and> transmitted_wave fig8 unit_quadrature (Float64 [2]) 2 10 2 = Inr [sqrt 2 + sqrt 2]
   \<and> transmitted_wave fig8 unit_quadrature (Float64 [2]) 2 10 3 = Inr [sqrt 2 + sqrt 2]
   \<and> transmitted_wave fig8 unit_quadrature (Float64 [2]) 2 10 4 = Inr [sqrt 2 + sqrt 2 + sqrt 2]
   \<and> transmitted_wave fig8 unit_quadrature (Int64 [2]) 2 10 2 = Inr [sqrt 2 + 1]
   \<and> reflected_wave fig8 unit_quadrature (Float64 [-1]) 1 1 2 = Inr [R_1 fig8 1 (1 / 2)]
   \<and> reflected_wave fig8 unit_quadrature (Float64 [-1]) 1 1 3 = Inr [R_1 fig8 1 (1 / 2) + 1]
   \<and> reflected_wave fig8 unit_quadrature (Float64 [-1]) 1 1 4 = Inr [R_1 fig8 1 (1 / 2) + 1]"
proof -
  note w = window_fig8_open
  note v = T0_fig8_open T2_fig8_unit T4_fig8_unit R3_fig8_unit floor_sqrt_2
  have t1: "transmitted_wave fig8 unit_quadrature (Float64 [2]) 2 10 1 = Inr [sqrt 2]"
    using orders_between_thresholds
            [where N = 1 and e = fig8 and q = unit_quadrature and x = "Float64 [2]"
               and t = 2 and w = 10]
    by (simp add: fig8_fields v)
  have t2: "transmitted_wave fig8 unit_quadrature (Float64 [2]) 2 10 2 = Inr [sqrt 2 + sqrt 2]"
    using orders_between_thresholds
            [where N = 2 and e = fig8 and q = unit_quadrature and x = "Float64 [2]"
               and t = 2 and w = 10] w
    by (simp add: fig8_fields v)
  have t3: "transmitted_wave fig8 unit_quadrature (Float64 [2]) 2 10 3 = Inr [sqrt 2 + sqrt 2]"
    using orders_between_thresholds
            [where N = 3 and e = fig8 and q = unit_quadrature and x = "Float64 [2]"
               and t = 2 and w = 10] w
    by (simp add: fig8_fields v)
  have t4: "transmitted_wave fig8 unit_quadrature (Float64 [2]) 2 10 4
            = Inr [sqrt 2 + sqrt 2 + sqrt 2]"
    using orders_between_thresholds
            [where N = 4 and e = fig8 and q = unit_quadrature and x = "Float64 [2]"
               and t = 2 and w = 10] w
    by (simp add: fig8_fields v)
  have ti: "transmitted_wave fig8 unit_quadrature (Int64 [2]) 2 10 2 = Inr [sqrt 2 + 1]"
    using orders_between_thresholds
            [where N = 2 and e = fig8 and q = unit_quadrature and x = "Int64 [2]"
               and t = 2 and w = 10] w
    by (simp add: fig8_fields v)
  have r2: "reflected_wave fig8 unit_quadrature (Float64 [-1]) 1 1 2 = Inr [R_1 fig8 1 (1 / 2)]"
    using orders_between_thresholds
            [where N = 2 and e = fig8 and q = unit_quadrature and x = "Float64 [-1]"
               and t = 1 and w = 1]
    by (simp add: fig8_fields v)
  have r3: "reflected_wave fig8 unit_quadrature (Float64 [-1]) 1 1 3
            = Inr [R_1 fig8 1 (1 / 2) + 1]"
    using orders_between_thresholds
            [where N = 3 and e = fig8 and q = unit_quadrature and x = "Float64 [-1]"
               and t = 1 and w = 1]
    by (simp add: fig8_fields v)
  have r4: "reflected_wave fig8 unit_quadrature (Float64 [-1]) 1 1 4
            = Inr [R_1 fig8 1 (1 / 2) + 1]"
    using orders_between_thresholds
            [where N = 4 and e = fig8 and q = unit_quadrature and x = "Float64 [-1]"
               and t = 1 and w = 1]
    by (simp add: fig8_fields v)
  show ?thesis using t1 t2 t3 t4 ti r2 r3 r4 by (intro conjI)
qed

section \<open>Terms outside their validity window\<close>

text \<open>
  Claim C4. Let \<open>(T_0, T_2, T_4)\<close> and \<open>R_3\<close> be the arrays the two evaluators hold when
  their loops are done, and \<open>t_w = w / c_l\<close>. At every index \<open>i\<close> of \<open>x\<close>: \<open>T_2 ! i\<close> is
  zero unless the causal time \<open>tt = t - (x ! i - x_r) / c_r\<close> satisfies
  \<open>t_r < tt < 3 * t_r + t_w\<close>; \<open>T_4 ! i\<close> is zero unless \<open>t_r < tt < 5 * t_r + t_w\<close>;
  \<open>R_3 ! i\<close> is zero whenever \<open>t + x ! i / c_l\<close> exceeds \<open>4 * t_r + t_w\<close>. For every order
  \<open>N \<le> 4\<close> neither evaluator raises.
\<close>

theorem terms_zero_outside_window:
  assumes "i < length (entries x)"
    and "trans_terms e q x t w N = (T_0, T_2, T_4)"
    and "refl_terms e q x t w N = R_3"
  shows "(\<not> (t_r e < t - (entries x ! i - x_r e) / c_r e
             \<and> t - (entries x ! i - x_r e) / c_r e < 3 * t_r e + w / c_l e) \<longrightarrow> T_2 ! i = 0)
       \<and> (\<not> (t_r e < t - (entries x ! i - x_r e) / c_r e
             \<and> t - (entries x ! i - x_r e) / c_r e < 5 * t_r e + w / c_l e) \<longrightarrow> T_4 ! i = 0)
       \<and> (t + entries x ! i / c_l e > 4 * t_r e + w / c_l e \<longrightarrow> R_3 ! i = 0)
       \<and> (N \<le> 4 \<longrightarrow> \<not> isl (transmitted_wave e q x t w N) \<and> \<not> isl (reflected_wave e q x t w N))"
proof (intro conjI impI)
  assume "\<not> (t_r e < t - (entries x ! i - x_r e) / c_r e
             \<and> t - (entries x ! i - x_r e) / c_r e < 3 * t_r e + w / c_l e)"
  then show "T_2 ! i = 0"
    using trans_terms_nth(2) [OF assms(1,2)] by auto
next
  assume "\<not> (t_r e < t - (entries x ! i - x_r e) / c_r e
             \<and> t - (entries x ! i - x_r e) / c_r e < 5 * t_r e + w / c_l e)"
  then show "T_4 ! i = 0"
    using trans_terms_nth(3) [OF assms(1,2)] by auto
next
  assume late: "t + entries x ! i / c_l e > 4 * t_r e + w / c_l e"
  have "R_3 ! i = (if N \<ge> 3 then cast_like x (R3 e q w (t + entries x ! i / c_l e)) else 0)"
    unfolding assms(3) [symmetric] by (rule refl_terms_nth [OF assms(1)])
  also have "\<dots> = 0"
    using late by (simp add: R3_def cast_like_zero)
  finally show "R_3 ! i = 0" .
next
  assume "N \<le> 4"
  then show "\<not> isl (transmitted_wave e q x t w N)"
    by (simp add: transmitted_wave_closed)
next
  assume "N \<le> 4"
  then show "\<not> isl (reflected_wave e q x t w N)"
    by (simp add: reflected_wave_closed)
qed

theorem terms_zero_outside_window_witness:
  "fst (snd (trans_terms fig8 midpoint_rule (Float64 [2]) 100 1 4)) ! 0 = 0
   \<and> snd (snd (trans_terms fig8 midpoint_rule (Float64 [2]) 100 1 4)) ! 0 = 0
   \<and> refl_terms fig8 midpoint_rule (Float64 [2]) 100 1 4 ! 0 = 0
   \<and> \<not> isl (transmitted_wave fig8 midpoint_rule (Float64 [2]) 100 1 4)
   \<and> \<not> isl (reflected_wave fig8 midpoint_rule (Float64 [2]) 100 1 4)"
proof -
  have ln2: "ln (2::real) < 1" by (rule ln_2_less_1)
  have tt: "trans_terms fig8 midpoint_rule (Float64 [2]) 100 1 4
            = (fst (trans_terms fig8 midpoint_rule (Float64 [2]) 100 1 4),
               fst (snd (trans_terms fig8 midpoint_rule (Float64 [2]) 100 1 4)),
               snd (snd (trans_terms fig8 midpoint_rule (Float64 [2]) 100 1 4)))"
    by simp
  show ?thesis
    using terms_zero_outside_window [OF _ tt refl, of 0] ln2
    by (simp add: fig8_fields t_r_fig8)
qed

end
